theory Spec2Isabelle
  imports Complex_Main "HOL-Library.Word" "HOL-Library.Multiset"
begin

unbundle bit_operations_syntax

section \<open>Mapbox vector style set: text templates, stop functions, colors, layer index\<close>

text \<open>
  A shallow embedding of \<^verbatim>\<open>MapboxVectorStyleSetC.cpp\<close> (WhirlyGlobeLib). C++ \<^verbatim>\<open>double\<close>
  values are modelled as \<^typ>\<open>real\<close>: the model follows the control flow and the formulas of
  the code and leaves the rounding of IEEE arithmetic out. A \<^verbatim>\<open>std::string\<close> is a
  \<^typ>\<open>string\<close> (a list of bytes). A shared pointer that may be null is an \<^typ>\<open>'a option\<close>.
  The logging sink (\<^verbatim>\<open>wkLogLevel\<close>) is an external collaborator; its calls have no effect on
  the values computed and are not part of the model.
\<close>

subsection \<open>C library helpers\<close>

text \<open>\<^verbatim>\<open>std::isspace\<close> in the C locale: space, and the control characters 9 to 13.\<close>

definition isspace :: "char \<Rightarrow> bool" where
  "isspace c = (c = CHR '' '' \<or> c = CHR 0x09 \<or> c = CHR 0x0A \<or> c = CHR 0x0B
     \<or> c = CHR 0x0C \<or> c = CHR 0x0D)"

text \<open>The value of a decimal digit, and of a hexadecimal digit (either case).\<close>

definition digit_val :: "char \<Rightarrow> nat option" where
  "digit_val c = (let n = (of_char c :: nat) in
     if 48 \<le> n \<and> n \<le> 57 then Some (n - 48) else None)"

definition hex_val :: "char \<Rightarrow> nat option" where
  "hex_val c = (let n = (of_char c :: nat) in
     if 48 \<le> n \<and> n \<le> 57 then Some (n - 48)
     else if 97 \<le> n \<and> n \<le> 102 then Some (n - 87)
     else if 65 \<le> n \<and> n \<le> 70 then Some (n - 55)
     else None)"

text \<open>
  The static \<^verbatim>\<open>trim\<close>: first pops trailing whitespace, then erases everything before the
  first character that is not whitespace (nothing is erased when there is none, which
  after the first loop means the string is empty).
\<close>

fun trim_right :: "string \<Rightarrow> string" where
  "trim_right s = rev (dropWhile isspace (rev s))"

fun trim_left :: "string \<Rightarrow> string" where
  "trim_left s = (if \<exists>c \<in> set s. \<not> isspace c then dropWhile isspace s else s)"

definition trim :: "string \<Rightarrow> string" where
  "trim s = trim_left (trim_right s)"

subsection \<open>Regular expressions of the file\<close>

text \<open>
  \<^verbatim>\<open>std::sregex_token_iterator\<close> with submatch \<^verbatim>\<open>-1\<close> over a pattern that matches a run of
  delimiter characters. It yields the text before each match (empty or not), and after
  the last match the rest of the input when that is not empty; with no match at all it
  yields the whole input. \<open>cur\<close> is the text since the last match, \<open>seen\<close> says whether a
  match has ended yet and \<open>inD\<close> whether the scan is inside a match. With \<open>greedy\<close> the
  pattern is \<^verbatim>\<open>[...]+\<close> (a maximal run is one match), without it every delimiter character
  is a match of its own.
\<close>

fun regex_split :: "(char \<Rightarrow> bool) \<Rightarrow> bool \<Rightarrow> string \<Rightarrow> string \<Rightarrow> bool \<Rightarrow> bool \<Rightarrow> string list" where
  "regex_split d greedy [] cur seen inD = (if seen \<and> cur = [] then [] else [cur])"
| "regex_split d greedy (c # cs) cur seen inD =
     (if d c then
        (if greedy \<and> inD then regex_split d greedy cs [] True True
         else cur # regex_split d greedy cs [] True True)
      else regex_split d greedy cs (cur @ [c]) seen False)"

text \<open>\<^verbatim>\<open>fieldSeparatorPattern\<close> is \<^verbatim>\<open>[{}]+\<close> and \<^verbatim>\<open>colorSeparatorPattern\<close> is \<^verbatim>\<open>[(),]\<close>.\<close>

definition fieldSeparator :: "char \<Rightarrow> bool" where
  "fieldSeparator c = (c = CHR ''{'' \<or> c = CHR ''}'')"

definition colorSeparator :: "char \<Rightarrow> bool" where
  "colorSeparator c = (c = CHR ''('' \<or> c = CHR '')'' \<or> c = CHR '','')"

definition field_tokens :: "string \<Rightarrow> string list" where
  "field_tokens s = regex_split fieldSeparator True s [] False False"

definition color_tokens :: "string \<Rightarrow> string list" where
  "color_tokens s = regex_split colorSeparator False s [] False False"

text \<open>
  \<^verbatim>\<open>colonPattern\<close> is \<^verbatim>\<open>:\w+$\<close>: a colon, then one or more word characters (letters, digits,
  underscore), then the end of the string. \<open>colon_search\<close> is \<^verbatim>\<open>std::regex_search\<close> with
  it: the index of the leftmost match, if there is one.
\<close>

definition word_char :: "char \<Rightarrow> bool" where
  "word_char c = (let n = (of_char c :: nat) in
     (48 \<le> n \<and> n \<le> 57) \<or> (65 \<le> n \<and> n \<le> 90) \<or> (97 \<le> n \<and> n \<le> 122) \<or> n = 95)"

definition colon_match_here :: "string \<Rightarrow> bool" where
  "colon_match_here s = (case s of [] \<Rightarrow> False
     | c # cs \<Rightarrow> c = CHR '':'' \<and> cs \<noteq> [] \<and> list_all word_char cs)"

fun colon_search_from :: "nat \<Rightarrow> string \<Rightarrow> nat option" where
  "colon_search_from i [] = None"
| "colon_search_from i (c # cs) =
     (if colon_match_here (c # cs) then Some i else colon_search_from (Suc i) cs)"

definition colon_search :: "string \<Rightarrow> nat option" where
  "colon_search s = colon_search_from 0 s"

subsection \<open>Text templates: \<^verbatim>\<open>MapboxRegexField\<close>\<close>

record MapboxTextChunk =
  str :: string
  keys :: "string list"

record MapboxRegexField =
  chunks :: "MapboxTextChunk list"
  valid :: bool

text \<open>The default-constructed field: no chunks, not valid.\<close>

definition MapboxRegexField_new :: MapboxRegexField where
  "MapboxRegexField_new = \<lparr>chunks = [], valid = False\<rparr>"

text \<open>
  One round of the loop of \<^verbatim>\<open>MapboxRegexField::parse\<close> for a token that is not empty: a
  literal chunk, or a key chunk whose key list gets a second key, with the matched colon
  replaced by an underscore, when \<^verbatim>\<open>colonPattern\<close> matches.
\<close>

definition text_chunk :: "bool \<Rightarrow> string \<Rightarrow> MapboxTextChunk" where
  "text_chunk isJustText regexChunk =
     (if isJustText then \<lparr>str = regexChunk, keys = []\<rparr>
      else (case colon_search regexChunk of
              None \<Rightarrow> \<lparr>str = [], keys = [regexChunk]\<rparr>
            | Some index \<Rightarrow> \<lparr>str = [], keys = [regexChunk, regexChunk[index := CHR ''_'']]\<rparr>))"

text \<open>The loop: empty tokens are skipped, and do not flip \<open>isJustText\<close>.\<close>

fun parse_chunks :: "bool \<Rightarrow> string list \<Rightarrow> MapboxTextChunk list" where
  "parse_chunks isJustText [] = []"
| "parse_chunks isJustText (t # ts) =
     (if length t = 0 then parse_chunks isJustText ts
      else text_chunk isJustText t # parse_chunks (\<not> isJustText) ts)"

text \<open>
  \<^verbatim>\<open>MapboxRegexField::parse(textField)\<close>: appends to the chunks of the field, sets \<open>valid\<close>
  and returns true. \<^verbatim>\<open>textField[0]\<close> of an empty string is the terminating zero, which is
  not an opening brace.
\<close>

definition MapboxRegexField_parse :: "MapboxRegexField \<Rightarrow> string \<Rightarrow> bool \<times> MapboxRegexField" where
  "MapboxRegexField_parse f template =
     (let isJustText = (case template of [] \<Rightarrow> True | c # _ \<Rightarrow> c \<noteq> CHR ''{'')
      in (True, \<lparr>chunks = chunks f @ parse_chunks isJustText (field_tokens template),
                 valid = True\<rparr>))"

text \<open>
  The attribute dictionary is an opaque key-value store: \<open>attrs k = Some v\<close> says that
  \<^verbatim>\<open>hasField(k)\<close> holds and that \<^verbatim>\<open>getString(k)\<close> returns \<open>v\<close>.

  \<^verbatim>\<open>MapboxRegexField::build\<close>. The inner loop over the keys of a chunk carries the text and
  the flags \<open>found\<close> and \<open>didLookup\<close>; it stops at the first key whose value is not empty.
\<close>

type_synonym attributes = "string \<rightharpoonup> string"

fun build_keys :: "attributes \<Rightarrow> string list \<Rightarrow> string \<times> bool \<times> bool \<Rightarrow> string \<times> bool \<times> bool" where
  "build_keys attrs [] (text, found, didLookup) = (text, found, didLookup)"
| "build_keys attrs (key # rest) (text, found, didLookup) =
     (case attrs key of
        None \<Rightarrow> build_keys attrs rest (text, found, True)
      | Some keyVal \<Rightarrow>
          (if keyVal \<noteq> [] then (text @ keyVal, True, True)
           else build_keys attrs rest (text, True, True)))"

fun build_chunks :: "attributes \<Rightarrow> MapboxTextChunk list \<Rightarrow> string \<times> bool \<times> bool \<Rightarrow> string \<times> bool \<times> bool" where
  "build_chunks attrs [] st = st"
| "build_chunks attrs (chunk # rest) (text, found, didLookup) =
     (if str chunk \<noteq> [] then build_chunks attrs rest (text @ str chunk, found, didLookup)
      else build_chunks attrs rest (build_keys attrs (keys chunk) (text, found, didLookup)))"

definition build :: "MapboxRegexField \<Rightarrow> attributes \<Rightarrow> string" where
  "build f attrs =
     (case build_chunks attrs (chunks f) ([], False, False) of
        (text, found, didLookup) \<Rightarrow> if didLookup \<and> \<not> found then [] else trim text)"

text \<open>
  What the specification says \<open>build\<close> computes, in its words: literal chunks verbatim; for
  a key chunk the value of the first key whose looked-up value is not empty; the empty
  string when a key lookup was attempted and none succeeded; the result trimmed of
  leading and trailing whitespace. A lookup succeeds when the attributes have the field,
  whatever its value.
\<close>

definition lookup_value :: "attributes \<Rightarrow> string \<Rightarrow> string" where
  "lookup_value attrs k = (case attrs k of None \<Rightarrow> [] | Some v \<Rightarrow> v)"

definition spec_chunk_text :: "attributes \<Rightarrow> MapboxTextChunk \<Rightarrow> string" where
  "spec_chunk_text attrs chunk =
     (if str chunk \<noteq> [] then str chunk
      else (case find (\<lambda>k. lookup_value attrs k \<noteq> []) (keys chunk) of
              None \<Rightarrow> []
            | Some k \<Rightarrow> lookup_value attrs k))"

definition spec_lookup_attempted :: "MapboxRegexField \<Rightarrow> bool" where
  "spec_lookup_attempted f = (\<exists>chunk \<in> set (chunks f). str chunk = [] \<and> keys chunk \<noteq> [])"

definition spec_lookup_succeeded :: "MapboxRegexField \<Rightarrow> attributes \<Rightarrow> bool" where
  "spec_lookup_succeeded f attrs =
     (\<exists>chunk \<in> set (chunks f). str chunk = [] \<and> (\<exists>k \<in> set (keys chunk). attrs k \<noteq> None))"

definition spec_trim :: "string \<Rightarrow> string" where
  "spec_trim s = dropWhile isspace (rev (dropWhile isspace (rev s)))"

definition spec_build :: "MapboxRegexField \<Rightarrow> attributes \<Rightarrow> string" where
  "spec_build f attrs =
     (if spec_lookup_attempted f \<and> \<not> spec_lookup_succeeded f attrs then []
      else spec_trim (concat (map (spec_chunk_text attrs) (chunks f))))"

subsection \<open>Numbers from strings\<close>

text \<open>
  What \<^verbatim>\<open>std::stoi\<close> and \<^verbatim>\<open>std::stod\<close> throw. \<open>outside_model\<close> is no exception of the code:
  it marks the inputs of \<^verbatim>\<open>std::stod\<close> whose result this model cannot express (see below).
\<close>

datatype failure = invalid_argument | out_of_range | outside_model

definition is_digit :: "char \<Rightarrow> bool" where
  "is_digit c = (digit_val c \<noteq> None)"

definition is_xdigit :: "char \<Rightarrow> bool" where
  "is_xdigit c = (hex_val c \<noteq> None)"

text \<open>The number a digit string denotes in the given radix.\<close>

definition xdigit_value :: "char \<Rightarrow> nat" where
  "xdigit_value c = (case hex_val c of Some v \<Rightarrow> v | None \<Rightarrow> 0)"

definition digits_value :: "nat \<Rightarrow> string \<Rightarrow> nat" where
  "digits_value radix ds = foldl (\<lambda>acc c. radix * acc + xdigit_value c) 0 ds"

text \<open>An optional sign: whether it is a minus, how many characters it takes, and the rest.\<close>

definition split_sign :: "string \<Rightarrow> bool \<times> nat \<times> string" where
  "split_sign s = (case s of
       [] \<Rightarrow> (False, 0, [])
     | c # cs \<Rightarrow> if c = CHR ''-'' then (True, 1, cs)
                else if c = CHR ''+'' then (False, 1, cs)
                else (False, 0, s))"

text \<open>
  \<^verbatim>\<open>::strtoul(p, &end, 16)\<close> on a 64-bit \<^verbatim>\<open>unsigned long\<close>: leading whitespace, an optional
  sign, an optional \<^verbatim>\<open>0x\<close> before a hexadecimal digit, then the digits. The result is the
  value (negated in unsigned arithmetic after a minus, \<^verbatim>\<open>ULONG_MAX\<close> when it does not fit)
  and the number of characters up to \<^verbatim>\<open>end\<close>, which is 0 when there is no digit. A zero
  byte inside the string is no digit, so the scan stops there as it does on the
  C string.
\<close>

definition strtoul_hex :: "string \<Rightarrow> 64 word \<times> nat" where
  "strtoul_hex s =
     (let ws = takeWhile isspace s;
          (neg, sgn, s2) = split_sign (dropWhile isspace s);
          (pre, s3) = (case s2 of
               c0 # cx # ch # cs \<Rightarrow>
                 if c0 = CHR ''0'' \<and> (cx = CHR ''x'' \<or> cx = CHR ''X'') \<and> is_xdigit ch
                 then (2, ch # cs) else (0, s2)
             | _ \<Rightarrow> (0, s2));
          ds = takeWhile is_xdigit s3
      in if ds = [] then (0, 0)
         else (let n = digits_value 16 ds;
                   v = (if 2 ^ 64 \<le> n then - 1
                        else if neg then - word_of_nat n else word_of_nat n)
               in (v, length ws + sgn + pre + length ds)))"

text \<open>
  \<^verbatim>\<open>std::stoi\<close>: leading whitespace, an optional sign, decimal digits; what follows the
  digits is ignored. No digit throws \<^verbatim>\<open>std::invalid_argument\<close>, a value outside the 32-bit
  \<^verbatim>\<open>int\<close> throws \<^verbatim>\<open>std::out_of_range\<close>.
\<close>

definition stoi :: "string \<Rightarrow> failure + int" where
  "stoi s =
     (let (neg, sgn, s2) = split_sign (dropWhile isspace s);
          ds = takeWhile is_digit s2
      in if ds = [] then Inl invalid_argument
         else (let n = int (digits_value 10 ds);
                   v = (if neg then - n else n)
               in if v < - 2147483648 \<or> 2147483647 < v then Inl out_of_range else Inr v))"

text \<open>
  \<^verbatim>\<open>std::stod\<close> on decimal notation: whitespace, sign, digits with an optional point, an
  optional exponent (consumed only when it has a digit). No digit throws
  \<^verbatim>\<open>std::invalid_argument\<close>; a value beyond the largest or, when not zero, below the
  smallest normal \<^verbatim>\<open>double\<close> throws \<^verbatim>\<open>std::out_of_range\<close>. Hexadecimal notation, infinities
  and NaN have no counterpart in \<^typ>\<open>real\<close>: an input that starts like one of them is
  \<open>outside_model\<close>, and nothing is proved about it.
\<close>

definition stod_exponent :: "string \<Rightarrow> int" where
  "stod_exponent s = (case s of
       [] \<Rightarrow> 0
     | c # cs \<Rightarrow>
         if c = CHR ''e'' \<or> c = CHR ''E'' then
           (let (neg, sgn, s2) = split_sign cs; ds = takeWhile is_digit s2
            in if ds = [] then 0
               else if neg then - int (digits_value 10 ds) else int (digits_value 10 ds))
         else 0)"

definition stod_special :: "string \<Rightarrow> bool" where
  "stod_special s = (case s of
       [] \<Rightarrow> False
     | c # cs \<Rightarrow> c \<in> set ''iInN''
         \<or> (c = CHR ''0'' \<and> (case cs of [] \<Rightarrow> False | x # _ \<Rightarrow> x = CHR ''x'' \<or> x = CHR ''X'')))"

definition DBL_MAX :: real where
  "DBL_MAX = (2 ^ 53 - 1) * 2 ^ 971"

definition DBL_MIN :: real where
  "DBL_MIN = 1 / 2 ^ 1022"

definition stod_range_error :: "real \<Rightarrow> bool" where
  "stod_range_error v = (DBL_MAX < v \<or> (v \<noteq> 0 \<and> v < DBL_MIN))"

definition stod :: "string \<Rightarrow> failure + real" where
  "stod s =
     (let (neg, sgn, s2) = split_sign (dropWhile isspace s)
      in if stod_special s2 then Inl outside_model
         else
          (let ip = takeWhile is_digit s2;
               r1 = dropWhile is_digit s2;
               fp = (case r1 of [] \<Rightarrow> []
                     | c # cs \<Rightarrow> if c = CHR ''.'' then takeWhile is_digit cs else []);
               r2 = (case r1 of [] \<Rightarrow> []
                     | c # cs \<Rightarrow> if c = CHR ''.'' then dropWhile is_digit cs else r1)
           in if ip = [] \<and> fp = [] then Inl invalid_argument
              else
               (let m = real (digits_value 10 ip) + real (digits_value 10 fp) / 10 ^ length fp;
                    e = stod_exponent r2;
                    v = (if 0 \<le> e then m * 10 ^ nat e else m / 10 ^ nat (- e))
                in if stod_range_error v then Inl out_of_range
                   else Inr (if neg then - v else v))))"

text \<open>The cast \<^verbatim>\<open>(int) x\<close> of a \<^verbatim>\<open>double\<close>: truncation towards zero.\<close>

definition int_of_double :: "real \<Rightarrow> int" where
  "int_of_double x = (if 0 \<le> x then \<lfloor>x\<rfloor> else \<lceil>x\<rceil>)"

subsection \<open>Colors: \<^verbatim>\<open>RGBAColor\<close> and \<^verbatim>\<open>parseColor\<close>\<close>

text \<open>The fields \<^verbatim>\<open>r\<close>, \<^verbatim>\<open>g\<close>, \<^verbatim>\<open>b\<close> and \<^verbatim>\<open>a\<close> of the class.\<close>

record RGBAColor =
  chan_r :: "8 word"
  chan_g :: "8 word"
  chan_b :: "8 word"
  chan_a :: "8 word"

text \<open>
  Modelled from the spec: the class \<^verbatim>\<open>RGBAColor\<close> is declared outside the source files at
  hand. The spec gives it four 8-bit channels, with alpha 255 when absent. Its
  constructors are modelled as storing their arguments narrowed to \<^verbatim>\<open>uint8_t\<close> the way C++
  converts them: an \<^verbatim>\<open>int\<close> modulo 256, a \<^verbatim>\<open>double\<close> truncated first. For arguments from 0 to
  255 this is the value itself, as the unit tests of the file expect
  (\<^verbatim>\<open>rgba(1,2,3,0.5)\<close> is \<^verbatim>\<open>0x7f010203\<close>).
\<close>

definition RGBAColor_bytes :: "8 word \<Rightarrow> 8 word \<Rightarrow> 8 word \<Rightarrow> 8 word \<Rightarrow> RGBAColor" where
  "RGBAColor_bytes rr gg bb aa = \<lparr>chan_r = rr, chan_g = gg, chan_b = bb, chan_a = aa\<rparr>"

definition RGBAColor_ints :: "int \<Rightarrow> int \<Rightarrow> int \<Rightarrow> int \<Rightarrow> RGBAColor" where
  "RGBAColor_ints rr gg bb aa =
     RGBAColor_bytes (word_of_int rr) (word_of_int gg) (word_of_int bb) (word_of_int aa)"

definition RGBAColor_doubles :: "real \<Rightarrow> real \<Rightarrow> real \<Rightarrow> real \<Rightarrow> RGBAColor" where
  "RGBAColor_doubles rr gg bb aa =
     RGBAColor_ints (int_of_double rr) (int_of_double gg) (int_of_double bb) (int_of_double aa)"

text \<open>
  The other members of \<^verbatim>\<open>RGBAColor\<close> that \<^verbatim>\<open>parseColor\<close> calls are parameters of the model:
  \<^verbatim>\<open>withAlphaMultiply\<close>, \<^verbatim>\<open>withAlpha\<close> and \<^verbatim>\<open>FromHSL\<close>.
\<close>

record RGBAColorOps =
  withAlphaMultiply :: "RGBAColor \<Rightarrow> real \<Rightarrow> RGBAColor"
  withAlpha :: "RGBAColor \<Rightarrow> real \<Rightarrow> RGBAColor"
  FromHSL :: "int \<Rightarrow> real \<Rightarrow> real \<Rightarrow> RGBAColor"

text \<open>
  The channels of the hex forms: a nibble \<^verbatim>\<open>(iVal >> sh) & 0xf\<close> doubled by
  \<^verbatim>\<open>x |= x << 4\<close>, and a byte \<^verbatim>\<open>(iVal >> sh) & 0xff\<close>.
\<close>

definition hex_nibble :: "32 word \<Rightarrow> nat \<Rightarrow> 8 word" where
  "hex_nibble iVal sh = (let x = (ucast (drop_bit sh iVal AND 0xf) :: 8 word) in x OR push_bit 4 x)"

definition hex_byte :: "32 word \<Rightarrow> nat \<Rightarrow> 8 word" where
  "hex_byte iVal sh = ucast (drop_bit sh iVal AND 0xff)"

text \<open>
  The end of the hex branch: \<^verbatim>\<open>RGBAColor(red, green, blue).withAlphaMultiply(alpha / 255.0)\<close>
  or \<^verbatim>\<open>RGBAColor(red, green, blue, alpha)\<close>.
\<close>

definition hex_result :: "RGBAColorOps \<Rightarrow> bool \<Rightarrow> 8 word \<Rightarrow> 8 word \<Rightarrow> 8 word \<Rightarrow> 8 word \<Rightarrow> RGBAColor" where
  "hex_result ops multiplyAlpha rr gg bb aa =
     (if multiplyAlpha
      then withAlphaMultiply ops (RGBAColor_bytes rr gg bb 255) (real (unat aa) / 255)
      else RGBAColor_bytes rr gg bb aa)"

definition parseColor_hex :: "RGBAColorOps \<Rightarrow> string \<Rightarrow> RGBAColor option \<Rightarrow> bool \<Rightarrow> RGBAColor option" where
  "parseColor_hex ops s defVal multiplyAlpha =
     (case strtoul_hex (tl s) of (v, n) \<Rightarrow>
        (let iVal = (ucast v :: 32 word) in
         if 1 + n \<noteq> length s then defVal
         else if length s = 4 then
           Some (hex_result ops multiplyAlpha (hex_nibble iVal 8) (hex_nibble iVal 4)
                   (hex_nibble iVal 0) 255)
         else if length s = 5 then
           Some (hex_result ops multiplyAlpha (hex_nibble iVal 12) (hex_nibble iVal 8)
                   (hex_nibble iVal 4) (hex_nibble iVal 0))
         else if length s = 7 then
           Some (hex_result ops multiplyAlpha (hex_byte iVal 16) (hex_byte iVal 8)
                   (hex_byte iVal 0) 255)
         else if length s = 9 then
           Some (hex_result ops multiplyAlpha (hex_byte iVal 24) (hex_byte iVal 16)
                   (hex_byte iVal 8) (hex_byte iVal 0))
         else defVal))"

text \<open>
  Three or four numbers read by \<^verbatim>\<open>std::stoi\<close> and \<^verbatim>\<open>std::stod\<close>, in the order of the code;
  the first exception thrown leaves the function.
\<close>

definition stoi3 :: "string list \<Rightarrow> failure + int \<times> int \<times> int" where
  "stoi3 toks =
     (case stoi (toks ! 0) of Inl e \<Rightarrow> Inl e | Inr x \<Rightarrow>
      (case stoi (toks ! 1) of Inl e \<Rightarrow> Inl e | Inr y \<Rightarrow>
       (case stoi (toks ! 2) of Inl e \<Rightarrow> Inl e | Inr z \<Rightarrow> Inr (x, y, z))))"

definition stoi3_stod :: "string list \<Rightarrow> failure + int \<times> int \<times> int \<times> real" where
  "stoi3_stod toks =
     (case stoi3 toks of Inl e \<Rightarrow> Inl e | Inr (x, y, z) \<Rightarrow>
      (case stod (toks ! 3) of Inl e \<Rightarrow> Inl e | Inr w \<Rightarrow> Inr (x, y, z, w)))"

text \<open>\<^verbatim>\<open>str.find(p) == 0\<close>: the string starts with \<open>p\<close>.\<close>

definition starts_with :: "string \<Rightarrow> string \<Rightarrow> bool" where
  "starts_with p s = (take (length p) s = p)"

text \<open>
  \<^verbatim>\<open>parseColor\<close>. The result is \<open>Inl\<close> when an exception leaves the function, and otherwise
  the color reference returned (\<open>None\<close> for a null reference, which \<open>defVal\<close> may be). The
  parameter \<^verbatim>\<open>inName\<close> of the code only appears in the messages logged and is left out.
\<close>

definition parseColor :: "RGBAColorOps \<Rightarrow> string \<Rightarrow> RGBAColor option \<Rightarrow> bool \<Rightarrow> failure + RGBAColor option" where
  "parseColor ops s defVal multiplyAlpha =
     (if s = [] then Inr defVal
      else if hd s = CHR ''#'' then Inr (parseColor_hex ops s defVal multiplyAlpha)
      else if starts_with ''rgb('' s then
        (let toks = color_tokens (drop 4 s) in
         if length toks \<noteq> 3 then Inr defVal
         else (case stoi3 toks of Inl e \<Rightarrow> Inl e
               | Inr (rr, gg, bb) \<Rightarrow> Inr (Some (RGBAColor_ints rr gg bb 255))))
      else if starts_with ''rgba('' s then
        (let toks = color_tokens (drop 5 s) in
         if length toks \<noteq> 4 then Inr defVal
         else (case stoi3_stod toks of Inl e \<Rightarrow> Inl e
               | Inr (rr, gg, bb, al) \<Rightarrow>
                   if multiplyAlpha
                   then Inr (Some (RGBAColor_doubles (real_of_int rr * al) (real_of_int gg * al)
                                     (real_of_int bb * al) (255 * al)))
                   else Inr (Some (RGBAColor_ints rr gg bb (int_of_double (255 * al))))))
      else if starts_with ''hsl('' s then
        (let toks = color_tokens (drop 4 s) in
         if length toks \<noteq> 3 then Inr defVal
         else (case stoi3 toks of Inl e \<Rightarrow> Inl e
               | Inr (hue, sat, light) \<Rightarrow>
                   (let newLight = real_of_int light / 100; newSat = real_of_int sat / 100
                    in Inr (Some (FromHSL ops hue newSat newLight)))))
      else if starts_with ''hsla('' s then
        (let toks = color_tokens (drop 5 s) in
         if length toks \<noteq> 4 then Inr defVal
         else (case stoi3_stod toks of Inl e \<Rightarrow> Inl e
               | Inr (hue, sat, light, al) \<Rightarrow>
                   (let newLight = real_of_int light / 100; newSat = real_of_int sat / 100;
                        c = FromHSL ops hue newSat newLight
                    in Inr (Some (if multiplyAlpha then withAlphaMultiply ops c al
                                  else withAlpha ops c al)))))
      else Inr defVal)"

subsection \<open>The dictionary of a style document\<close>

text \<open>
  Modelled from the spec: the attribute dictionary is a collaborator outside the source
  files at hand, a typed key-value store with \<^verbatim>\<open>getEntry\<close>, \<^verbatim>\<open>getString\<close>, \<^verbatim>\<open>getDouble\<close>,
  \<^verbatim>\<open>getArray\<close> and an enumeration of value kinds. An entry is one constructor per kind of
  \<^verbatim>\<open>DictionaryType\<close> that the code tests; an object entry carries the color its \<^verbatim>\<open>getColor\<close>
  returns. A dictionary is the list of its fields. The typed getters return the value
  of a field of the right kind and the default (or zero, or nothing) otherwise.
\<close>

datatype DictionaryEntry =
    DictString string
  | DictInt int
  | DictInt64 int
  | DictIdentity int
  | DictDouble real
  | DictObject RGBAColor
  | DictDictionary "(string \<times> DictionaryEntry) list"
  | DictArray "DictionaryEntry list"

type_synonym Dictionary = "(string \<times> DictionaryEntry) list"

definition getEntry :: "Dictionary \<Rightarrow> string \<Rightarrow> DictionaryEntry option" where
  "getEntry d k = map_of d k"

definition entry_getDouble :: "DictionaryEntry \<Rightarrow> real" where
  "entry_getDouble e = (case e of
       DictInt i \<Rightarrow> real_of_int i
     | DictInt64 i \<Rightarrow> real_of_int i
     | DictIdentity i \<Rightarrow> real_of_int i
     | DictDouble x \<Rightarrow> x
     | _ \<Rightarrow> 0)"

definition entry_isNumber :: "DictionaryEntry \<Rightarrow> bool" where
  "entry_isNumber e = (case e of
       DictInt i \<Rightarrow> True | DictInt64 i \<Rightarrow> True | DictIdentity i \<Rightarrow> True | DictDouble x \<Rightarrow> True
     | _ \<Rightarrow> False)"

definition dict_getDouble :: "Dictionary \<Rightarrow> string \<Rightarrow> real \<Rightarrow> real" where
  "dict_getDouble d k defVal = (case getEntry d k of
       None \<Rightarrow> defVal
     | Some e \<Rightarrow> if entry_isNumber e then entry_getDouble e else defVal)"

definition dict_getInt :: "Dictionary \<Rightarrow> string \<Rightarrow> int" where
  "dict_getInt d k = (case getEntry d k of
       None \<Rightarrow> 0
     | Some e \<Rightarrow> int_of_double (entry_getDouble e))"

definition dict_getString :: "Dictionary \<Rightarrow> string \<Rightarrow> string" where
  "dict_getString d k = (case getEntry d k of Some (DictString s) \<Rightarrow> s | _ \<Rightarrow> [])"

definition dict_getArray :: "Dictionary \<Rightarrow> string \<Rightarrow> DictionaryEntry list" where
  "dict_getArray d k = (case getEntry d k of Some (DictArray es) \<Rightarrow> es | _ \<Rightarrow> [])"

text \<open>
  \<^verbatim>\<open>colorValue\<close>: the entry is looked up in \<open>dict\<close> when there is one and is \<open>val\<close>
  otherwise; only a string entry is parsed.
\<close>

definition colorValue :: "RGBAColorOps \<Rightarrow> string \<Rightarrow> DictionaryEntry option \<Rightarrow> Dictionary option
    \<Rightarrow> RGBAColor option \<Rightarrow> bool \<Rightarrow> failure + RGBAColor option" where
  "colorValue ops inName entry dict defVal multiplyAlpha =
     (let thing = (case dict of Some d \<Rightarrow> getEntry d inName | None \<Rightarrow> entry)
      in (case thing of
            None \<Rightarrow> Inr defVal
          | Some (DictString s) \<Rightarrow> parseColor ops s defVal multiplyAlpha
          | Some _ \<Rightarrow> Inr defVal))"

subsection \<open>Stop functions: \<^verbatim>\<open>MaplyVectorFunctionStops\<close>\<close>


record MaplyVectorFunctionStop =
  zoom :: real
  val :: real
  color :: "RGBAColor option"
  textField :: MapboxRegexField

text \<open>The constructor of a stop: zoom \<open>-1\<close>, value \<open>0\<close>, no color, an empty text field.\<close>

definition MaplyVectorFunctionStop_new :: MaplyVectorFunctionStop where
  "MaplyVectorFunctionStop_new =
     \<lparr>zoom = -1, val = 0, color = None, textField = MapboxRegexField_new\<rparr>"

record MaplyVectorFunctionStops =
  base :: real
  stops :: "MaplyVectorFunctionStop list"

text \<open>
  The ratio of the interpolation between the stops \<open>a\<close> and \<open>b\<close>: linear when the base
  is 1, exponential otherwise (\<^verbatim>\<open>pow\<close> as \<open>powr\<close>, which agrees with it for a positive base).
\<close>

definition stop_ratio :: "real \<Rightarrow> real \<Rightarrow> MaplyVectorFunctionStop \<Rightarrow> MaplyVectorFunctionStop \<Rightarrow> real" where
  "stop_ratio bs z sa sb =
     (if bs = 1 then (z - zoom sa) / (zoom sb - zoom sa)
      else (let soFar = z - zoom sa
            in (bs powr soFar - 1) / (bs powr (zoom sb - zoom sa) - 1)))"

text \<open>
  The loop of \<^verbatim>\<open>valueForZoom\<close> from \<^verbatim>\<open>which = 1\<close> on: \<open>sa\<close> is the stop \<^verbatim>\<open>a\<close> points to,
  \<open>sb\<close> the stop \<^verbatim>\<open>b\<close> points to (\<open>None\<close> for the null pointer) and the list holds the stops
  not visited yet.
\<close>

fun valueForZoom_loop :: "real \<Rightarrow> real \<Rightarrow> MaplyVectorFunctionStop \<Rightarrow> MaplyVectorFunctionStop option
    \<Rightarrow> MaplyVectorFunctionStop list \<Rightarrow> real" where
  "valueForZoom_loop bs z sa sb [] = (case sb of Some s \<Rightarrow> val s | None \<Rightarrow> 0)"
| "valueForZoom_loop bs z sa sb (s # rest) =
     (if zoom sa \<le> z \<and> z < zoom s
      then stop_ratio bs z sa s * (val s - val sa) + val sa
      else valueForZoom_loop bs z s (Some s) rest)"

text \<open>
  \<^verbatim>\<open>valueForZoom\<close>. It reads \<^verbatim>\<open>stops[0]\<close> first, which is outside the vector when there is
  no stop: the model returns \<open>None\<close> there.
\<close>

definition valueForZoom :: "MaplyVectorFunctionStops \<Rightarrow> real \<Rightarrow> real option" where
  "valueForZoom f z =
     (case stops f of
        [] \<Rightarrow> None
      | s0 # rest \<Rightarrow>
          if z \<le> zoom s0 then Some (val s0)
          else Some (valueForZoom_loop (base f) z s0 None rest))"

text \<open>\<^verbatim>\<open>textForZoom\<close>: the same scan, returning the text field of the lower stop.\<close>

fun textForZoom_loop :: "real \<Rightarrow> MaplyVectorFunctionStop \<Rightarrow> MaplyVectorFunctionStop option
    \<Rightarrow> MaplyVectorFunctionStop list \<Rightarrow> MapboxRegexField" where
  "textForZoom_loop z sa sb [] =
     (case sb of Some s \<Rightarrow> textField s | None \<Rightarrow> MapboxRegexField_new)"
| "textForZoom_loop z sa sb (s # rest) =
     (if zoom sa \<le> z \<and> z < zoom s then textField sa
      else textForZoom_loop z s (Some s) rest)"

definition textForZoom :: "MaplyVectorFunctionStops \<Rightarrow> real \<Rightarrow> MapboxRegexField option" where
  "textForZoom f z =
     (case stops f of
        [] \<Rightarrow> None
      | s0 # rest \<Rightarrow>
          if z \<le> zoom s0 then Some (textField s0)
          else Some (textForZoom_loop z s0 None rest))"

text \<open>The stops are in ascending zoom order when each zoom is below the next one.\<close>

definition ascending :: "MaplyVectorFunctionStop list \<Rightarrow> bool" where
  "ascending ss = sorted_wrt (\<lambda>x y. zoom x < zoom y) ss"

subsection \<open>Parsing stop functions and property values\<close>

text \<open>A stop function as constructed, before \<open>parse\<close>: no stops (and the default base).\<close>

definition MaplyVectorFunctionStops_new :: MaplyVectorFunctionStops where
  "MaplyVectorFunctionStops_new = \<lparr>base = 1, stops = []\<rparr>"

text \<open>
  One round of the loop of \<^verbatim>\<open>MaplyVectorFunctionStops::parse\<close>: the stop read from an entry
  of the \<^verbatim>\<open>stops\<close> array, \<open>None\<close> where the code returns false, \<open>Inl\<close> where parsing a color
  string throws.
\<close>

definition parse_stop :: "RGBAColorOps \<Rightarrow> bool \<Rightarrow> DictionaryEntry
    \<Rightarrow> failure + MaplyVectorFunctionStop option" where
  "parse_stop ops isText stop =
     (case stop of
        DictArray stopEntries \<Rightarrow>
          if length stopEntries \<noteq> 2 then Inr None
          else
           (let fStop = MaplyVectorFunctionStop_new\<lparr>zoom := entry_getDouble (stopEntries ! 0)\<rparr>;
                v = stopEntries ! 1
            in (case v of
                  DictDouble x \<Rightarrow> Inr (Some (fStop\<lparr>val := x\<rparr>))
                | DictInt i \<Rightarrow> Inr (Some (fStop\<lparr>val := real_of_int i\<rparr>))
                | DictString s \<Rightarrow>
                    if isText
                    then Inr (Some (fStop\<lparr>textField :=
                                      snd (MapboxRegexField_parse (textField fStop) s)\<rparr>))
                    else (case colorValue ops [] (Some v) None None False of
                            Inl e \<Rightarrow> Inl e
                          | Inr c \<Rightarrow> Inr (Some (fStop\<lparr>color := c\<rparr>)))
                | DictObject c \<Rightarrow> Inr (Some (fStop\<lparr>color := Some c\<rparr>))
                | _ \<Rightarrow> Inr None))
      | _ \<Rightarrow> Inr None)"

text \<open>The loop: each stop parsed is pushed; the first failure returns false and keeps the
  stops pushed so far.\<close>

fun parse_stops :: "RGBAColorOps \<Rightarrow> bool \<Rightarrow> DictionaryEntry list \<Rightarrow> MaplyVectorFunctionStops
    \<Rightarrow> failure + bool \<times> MaplyVectorFunctionStops" where
  "parse_stops ops isText [] f = Inr (True, f)"
| "parse_stops ops isText (stop # rest) f =
     (case parse_stop ops isText stop of
        Inl e \<Rightarrow> Inl e
      | Inr None \<Rightarrow> Inr (False, f)
      | Inr (Some fStop) \<Rightarrow> parse_stops ops isText rest (f\<lparr>stops := stops f @ [fStop]\<rparr>))"

text \<open>
  \<^verbatim>\<open>MaplyVectorFunctionStops::parse\<close>: the result of the call and the object after it.
\<close>

definition MaplyVectorFunctionStops_parse :: "RGBAColorOps \<Rightarrow> MaplyVectorFunctionStops \<Rightarrow> Dictionary
    \<Rightarrow> bool \<Rightarrow> failure + bool \<times> MaplyVectorFunctionStops" where
  "MaplyVectorFunctionStops_parse ops f entry isText =
     (let f1 = f\<lparr>base := dict_getDouble entry ''base'' 1\<rparr>;
          dataArray = dict_getArray entry ''stops''
      in if length dataArray < 2 then Inr (False, f1)
         else parse_stops ops isText dataArray f1)"

text \<open>\<^verbatim>\<open>MapboxTransDouble\<close>: a constant, or a stop function (then \<^verbatim>\<open>val\<close> is 0).\<close>

record MapboxTransDouble =
  td_val :: real
  td_stops :: "MaplyVectorFunctionStops option"

definition MapboxTransDouble_value :: "real \<Rightarrow> MapboxTransDouble" where
  "MapboxTransDouble_value v = \<lparr>td_val = v, td_stops = None\<rparr>"

definition MapboxTransDouble_stops :: "MaplyVectorFunctionStops \<Rightarrow> MapboxTransDouble" where
  "MapboxTransDouble_stops inStops = \<lparr>td_val = 0, td_stops = Some inStops\<rparr>"

definition valForZoom :: "MapboxTransDouble \<Rightarrow> real \<Rightarrow> real option" where
  "valForZoom t z = (case td_stops t of Some s \<Rightarrow> valueForZoom s z | None \<Rightarrow> Some (td_val t))"

definition isExpression :: "MapboxTransDouble \<Rightarrow> bool" where
  "isExpression t = (td_stops t \<noteq> None)"

text \<open>\<^verbatim>\<open>MapboxTransColor\<close>: a color reference, or a stop function.\<close>

record MapboxTransColor =
  tc_color :: "RGBAColor option"
  useAlphaOverride :: bool
  tc_alpha :: real
  tc_stops :: "MaplyVectorFunctionStops option"

definition MapboxTransColor_color :: "RGBAColor option \<Rightarrow> MapboxTransColor" where
  "MapboxTransColor_color c =
     \<lparr>tc_color = c, useAlphaOverride = False, tc_alpha = 1, tc_stops = None\<rparr>"

definition MapboxTransColor_stops :: "MaplyVectorFunctionStops \<Rightarrow> MapboxTransColor" where
  "MapboxTransColor_stops s =
     \<lparr>tc_color = None, useAlphaOverride = False, tc_alpha = 1, tc_stops = Some s\<rparr>"

text \<open>
  \<^verbatim>\<open>transDouble(theEntry, defVal)\<close>. For a dictionary entry the code makes the stop
  function with \<^verbatim>\<open>std::make_shared\<close>, calls \<open>parse\<close> on it without looking at the result,
  and then tests the pointer, which is never null: \<open>stops_ptr\<close> below.
\<close>

definition transDouble :: "RGBAColorOps \<Rightarrow> DictionaryEntry option \<Rightarrow> real
    \<Rightarrow> failure + MapboxTransDouble option" where
  "transDouble ops theEntry defVal =
     (case theEntry of
        None \<Rightarrow> Inr (Some (MapboxTransDouble_value defVal))
      | Some e \<Rightarrow>
         (case e of
            DictDictionary d \<Rightarrow>
              (case MaplyVectorFunctionStops_parse ops MaplyVectorFunctionStops_new d False of
                 Inl x \<Rightarrow> Inl x
               | Inr (ok, st) \<Rightarrow>
                   (let stops_ptr = Some st
                    in (case stops_ptr of
                          Some s \<Rightarrow> Inr (Some (MapboxTransDouble_stops s))
                        | None \<Rightarrow> Inr None)))
          | DictDouble x \<Rightarrow> Inr (Some (MapboxTransDouble_value x))
          | DictInt i \<Rightarrow> Inr (Some (MapboxTransDouble_value (real_of_int i)))
          | _ \<Rightarrow> Inr None))"

text \<open>\<^verbatim>\<open>transDouble(valName, entry, defVal)\<close> looks the field up first.\<close>

definition transDouble_field :: "RGBAColorOps \<Rightarrow> string \<Rightarrow> Dictionary option \<Rightarrow> real
    \<Rightarrow> failure + MapboxTransDouble option" where
  "transDouble_field ops valName entry defVal =
     transDouble ops (case entry of Some d \<Rightarrow> getEntry d valName | None \<Rightarrow> None) defVal"

text \<open>
  \<^verbatim>\<open>transColor(valName, entry, defVal)\<close> with \<open>defVal\<close> a pointer that may be null. Here the
  result of \<open>parse\<close> decides.
\<close>

definition transColor :: "RGBAColorOps \<Rightarrow> string \<Rightarrow> Dictionary option \<Rightarrow> RGBAColor option
    \<Rightarrow> failure + MapboxTransColor option" where
  "transColor ops valName entry defVal =
     (let defValRef = defVal;
          byDefault = (if defVal \<noteq> None then Some (MapboxTransColor_color defValRef) else None)
      in (case entry of
            None \<Rightarrow> Inr byDefault
          | Some d \<Rightarrow>
             (case getEntry d valName of
                None \<Rightarrow> Inr byDefault
              | Some theEntry \<Rightarrow>
                 (case theEntry of
                    DictDictionary dd \<Rightarrow>
                      (case MaplyVectorFunctionStops_parse ops MaplyVectorFunctionStops_new dd False of
                         Inl x \<Rightarrow> Inl x
                       | Inr (ok, st) \<Rightarrow>
                           if ok then Inr (Some (MapboxTransColor_stops st)) else Inr None)
                  | DictString s \<Rightarrow>
                      (case colorValue ops valName (Some theEntry) None defValRef False of
                         Inl x \<Rightarrow> Inl x
                       | Inr None \<Rightarrow> Inr None
                       | Inr (Some c) \<Rightarrow> Inr (Some (MapboxTransColor_color (Some c))))
                  | _ \<Rightarrow> Inr None))))"

subsection \<open>The style set: layers and their indices\<close>

text \<open>
  Modelled from the spec: the class of a style layer and its filter are declared outside
  the source files at hand. A layer has a name (\<^verbatim>\<open>ident\<close>), a generated identifier, the
  name of its source layer (empty when it has none), an optional filter, a \<^verbatim>\<open>visible\<close> flag,
  a \<^verbatim>\<open>representation\<close>, a draw priority and the color of its paint (\<^verbatim>\<open>paint.color\<close>, which
  the code reads for the background layer). The code uses a filter only through
  \<^verbatim>\<open>testFeature(attrs, tileID)\<close>: it is a predicate on the attributes \<open>'a\<close> of a feature and
  a tile identifier \<open>'t\<close>.
\<close>

record ('a, 't) MapboxVectorStyleLayer =
  ident :: string
  uuid :: int
  sourceLayer :: string
  layer_filter :: "('a \<Rightarrow> 't \<Rightarrow> bool) option"
  visible :: bool
  representation :: string
  drawPriority :: int
  paint_color :: "MapboxTransColor option"

text \<open>
  The members of \<^verbatim>\<open>MapboxVectorStyleSetImpl\<close> that parsing and the queries use.
  \<open>baseDrawPriority\<close> is \<^verbatim>\<open>tileStyleSettings->baseDrawPriority\<close>. The two maps are
  \<open>layersByName\<close> and \<open>layersByUUID\<close>; the multimap \<open>layersBySource\<close> is the list of its
  pairs in the order in which it iterates over them (see \<open>multimap_insert\<close> below).
\<close>

record ('a, 't) MapboxVectorStyleSetImpl =
  name :: string
  version :: int
  currentID :: int
  baseDrawPriority :: int
  layersByName :: "string \<rightharpoonup> ('a, 't) MapboxVectorStyleLayer"
  layersByUUID :: "int \<rightharpoonup> ('a, 't) MapboxVectorStyleLayer"
  layersBySource :: "(string \<times> ('a, 't) MapboxVectorStyleLayer) list"
  layers :: "('a, 't) MapboxVectorStyleLayer list"

text \<open>
  The constructor of the style set makes \<open>layersBySource\<close> with a bucket count
  (\<^verbatim>\<open>layersBySource(TypicalLayerCount)\<close>): it is a hash multimap of the standard library,
  and the order of the pairs of one key in it is the library's, not the program's. The
  position at which \<^verbatim>\<open>insert\<close> puts a new pair among the pairs already there is therefore a
  parameter of the model, \<open>place\<close>; every position is allowed. \<open>equal_range\<close> takes the
  values of one key in the order of iteration. (A rehash keeps the relative order of the
  pairs of one key, so it does not change any \<open>equal_range\<close>.)
\<close>

type_synonym ('k, 'v) insert_place = "('k \<times> 'v) list \<Rightarrow> 'k \<times> 'v \<Rightarrow> nat"

definition multimap_insert :: "('k, 'v) insert_place \<Rightarrow> ('k \<times> 'v) list \<Rightarrow> 'k \<times> 'v
    \<Rightarrow> ('k \<times> 'v) list" where
  "multimap_insert place m kv = take (place m kv) m @ kv # drop (place m kv) m"




text \<open>The constructor: version \<open>-1\<close>, identifiers from 0, no layer.\<close>

definition MapboxVectorStyleSetImpl_new :: "int \<Rightarrow> ('a, 't) MapboxVectorStyleSetImpl" where
  "MapboxVectorStyleSetImpl_new basePriority =
     \<lparr>name = [], version = - 1, currentID = 0, baseDrawPriority = basePriority,
      layersByName = Map.empty, layersByUUID = Map.empty, layersBySource = [], layers = []\<rparr>"

text \<open>
  \<^verbatim>\<open>MapboxVectorStyleLayer::VectorStyleLayer\<close>, which makes the layer of a dictionary, is
  outside the source files at hand and a parameter of the model: from the style set, the
  dictionary and the draw priority it returns the layer, or null, and the value of
  \<open>currentID\<close> after the identifiers it generated; or it throws (\<open>Inl\<close>), as the property
  resolvers above do that it has at hand.
\<close>

type_synonym ('a, 't) layer_maker =
  "('a, 't) MapboxVectorStyleSetImpl \<Rightarrow> Dictionary \<Rightarrow> int
     \<Rightarrow> failure + ('a, 't) MapboxVectorStyleLayer option \<times> int"

text \<open>
  One round of the loop of \<^verbatim>\<open>MapboxVectorStyleSetImpl::parse\<close>, on the style set and the
  counter \<open>which\<close>. An entry that is no dictionary only advances the counter; a dictionary
  for which no layer is made is left by \<^verbatim>\<open>continue\<close>, before the counter advances. The loop
  has no handler: an exception of the constructor leaves the round, and the loop.
\<close>

definition parse_layer :: "(string, ('a, 't) MapboxVectorStyleLayer) insert_place
    \<Rightarrow> ('a, 't) layer_maker \<Rightarrow> ('a, 't) MapboxVectorStyleSetImpl \<times> int
    \<Rightarrow> DictionaryEntry \<Rightarrow> failure + ('a, 't) MapboxVectorStyleSetImpl \<times> int" where
  "parse_layer place mk st layerStyle =
     (case st of (s, which) \<Rightarrow>
       (case layerStyle of
          DictDictionary d \<Rightarrow>
            (case mk s d (1 * which + baseDrawPriority s) of
               Inl e \<Rightarrow> Inl e
             | Inr (None, cid) \<Rightarrow> Inr (s\<lparr>currentID := cid\<rparr>, which)
             | Inr (Some layer, cid) \<Rightarrow>
                 (let s1 = s\<lparr>currentID := cid\<rparr>;
                      s2 = s1\<lparr>layersByName := (layersByName s1)(ident layer \<mapsto> layer)\<rparr>;
                      s3 = s2\<lparr>layersByUUID := (layersByUUID s2)(uuid layer \<mapsto> layer)\<rparr>;
                      s4 = (if sourceLayer layer \<noteq> []
                            then s3\<lparr>layersBySource :=
                                      multimap_insert place (layersBySource s3)
                                        (sourceLayer layer, layer)\<rparr>
                            else s3)
                  in Inr (s4\<lparr>layers := layers s4 @ [layer]\<rparr>, which + 1)))
        | _ \<Rightarrow> Inr (s, which + 1)))"

fun parse_layers :: "(string, ('a, 't) MapboxVectorStyleLayer) insert_place
    \<Rightarrow> ('a, 't) layer_maker \<Rightarrow> ('a, 't) MapboxVectorStyleSetImpl \<times> int
    \<Rightarrow> DictionaryEntry list \<Rightarrow> failure + ('a, 't) MapboxVectorStyleSetImpl \<times> int" where
  "parse_layers place mk st [] = Inr st"
| "parse_layers place mk st (layerStyle # rest) =
     (case parse_layer place mk st layerStyle of
        Inl e \<Rightarrow> Inl e
      | Inr st' \<Rightarrow> parse_layers place mk st' rest)"

text \<open>The style set when the loop starts: name and version are read from the document.\<close>

definition parse_start :: "('a, 't) MapboxVectorStyleSetImpl \<Rightarrow> Dictionary
    \<Rightarrow> ('a, 't) MapboxVectorStyleSetImpl" where
  "parse_start s styleDict =
     s\<lparr>name := dict_getString styleDict ''name'', version := dict_getInt styleDict ''version''\<rparr>"

text \<open>
  \<^verbatim>\<open>MapboxVectorStyleSetImpl::parse\<close>: the value returned and the style set after it, or the
  exception that leaves it.
\<close>

definition MapboxVectorStyleSetImpl_parse :: "(string, ('a, 't) MapboxVectorStyleLayer) insert_place
    \<Rightarrow> ('a, 't) layer_maker \<Rightarrow> ('a, 't) MapboxVectorStyleSetImpl
    \<Rightarrow> Dictionary \<Rightarrow> failure + bool \<times> ('a, 't) MapboxVectorStyleSetImpl" where
  "MapboxVectorStyleSetImpl_parse place mk s styleDict =
     (let layerStyles = dict_getArray styleDict ''layers''
      in (case parse_layers place mk (parse_start s styleDict, 0) layerStyles of
            Inl e \<Rightarrow> Inl e
          | Inr st \<Rightarrow> Inr (True, fst st)))"










subsection \<open>Inputs of the examples\<close>

text \<open>The numeric stops \<open>[(0, 0), (10, 100)]\<close> with base 1.\<close>

definition example_stops :: MaplyVectorFunctionStops where
  "example_stops =
     \<lparr>base = 1,
      stops = [MaplyVectorFunctionStop_new\<lparr>zoom := 0, val := 0\<rparr>,
               MaplyVectorFunctionStop_new\<lparr>zoom := 10, val := 100\<rparr>]\<rparr>"

text \<open>
  A stand-in for the members of \<^verbatim>\<open>RGBAColor\<close> that are parameters of the model, for the
  statements about one concrete input: multiplying scales all four channels, setting
  alpha replaces the fourth, and the conversion from HSL is left grey. The general
  statements hold for every choice of the three.
\<close>

definition example_ops :: RGBAColorOps where
  "example_ops =
     \<lparr>withAlphaMultiply = (\<lambda>c al. RGBAColor_doubles (real (unat (chan_r c)) * al)
          (real (unat (chan_g c)) * al) (real (unat (chan_b c)) * al) (255 * al)),
      withAlpha = (\<lambda>c al. c\<lparr>chan_a := word_of_int (int_of_double (255 * al))\<rparr>),
      FromHSL = (\<lambda>h s l. RGBAColor_doubles (255 * l) (255 * l) (255 * l) 255)\<rparr>"

text \<open>The templates \<^verbatim>\<open>{name}\<close> and \<^verbatim>\<open>{name:en}\<close>, parsed into fresh fields.\<close>

definition example_template :: MapboxRegexField where
  "example_template = snd (MapboxRegexField_parse MapboxRegexField_new ''{name}'')"


text \<open>
  The text stops \<open>[(0, low), (10, high)]\<close>, parsed from their dictionary with \<open>isText\<close>.
\<close>

definition example_text_dict :: Dictionary where
  "example_text_dict =
     [(''stops'', DictArray [DictArray [DictInt 0, DictString ''low''],
                             DictArray [DictInt 10, DictString ''high'']])]"

definition example_text_stops :: MaplyVectorFunctionStops where
  "example_text_stops =
     (case MaplyVectorFunctionStops_parse example_ops MaplyVectorFunctionStops_new
             example_text_dict True of
        Inr (ok, f) \<Rightarrow> f
      | Inl e \<Rightarrow> MaplyVectorFunctionStops_new)"

text \<open>
  Modelled from the spec: a layer constructor for the examples, in place of
  \<^verbatim>\<open>VectorStyleLayer\<close>, which is outside the source files at hand. A dictionary with a
  string \<^verbatim>\<open>id\<close> gives a layer with that name, the next identifier, its \<^verbatim>\<open>source-layer\<close>
  and, when it has a string \<^verbatim>\<open>filter\<close>, the filter that a feature has that attribute; the
  fill color of its \<^verbatim>\<open>paint\<close> dictionary is resolved by \<open>transColor\<close>, whose exception
  leaves the constructor. Any other dictionary gives no layer.
\<close>

definition example_paint :: "Dictionary \<Rightarrow> Dictionary option" where
  "example_paint d = (case getEntry d ''paint'' of Some (DictDictionary p) \<Rightarrow> Some p | _ \<Rightarrow> None)"

definition example_maker :: "(attributes, nat) layer_maker" where
  "example_maker s d prio =
     (case getEntry d ''id'' of
        Some (DictString i) \<Rightarrow>
          (case transColor example_ops ''fill-color'' (example_paint d) None of
             Inl e \<Rightarrow> Inl e
           | Inr c \<Rightarrow>
               Inr (Some \<lparr>ident = i, uuid = currentID s,
                           sourceLayer = dict_getString d ''source-layer'',
                           layer_filter = (case getEntry d ''filter'' of
                               Some (DictString k) \<Rightarrow> Some (\<lambda>attrs tileID. attrs k \<noteq> None)
                             | _ \<Rightarrow> None),
                           visible = True, representation = [], drawPriority = prio,
                           paint_color = c\<rparr>,
                    currentID s + 1))
      | _ \<Rightarrow> Inr (None, currentID s))"






text \<open>
  A document whose first layer has a fill color that is no color, \<^verbatim>\<open>rgb(a,b,c)\<close>, and
  the document with the layer after it alone.
\<close>

definition example_road_entry :: DictionaryEntry where
  "example_road_entry =
     DictDictionary [(''id'', DictString ''road''), (''source-layer'', DictString ''road'')]"

definition example_bad_layer :: Dictionary where
  "example_bad_layer =
     [(''id'', DictString ''water''), (''source-layer'', DictString ''water''),
      (''paint'', DictDictionary [(''fill-color'', DictString ''rgb(a,b,c)'')])]"

definition example_bad_document :: Dictionary where
  "example_bad_document =
     [(''layers'', DictArray [DictDictionary example_bad_layer, example_road_entry])]"

definition example_rest_document :: Dictionary where
  "example_rest_document = [(''layers'', DictArray [example_road_entry])]"

section \<open>Properties\<close>

subsection \<open>Stop functions\<close>

lemma ascending_le_last:
  "sorted_wrt (\<lambda>x y. zoom x < zoom y) ss \<Longrightarrow> s \<in> set ss \<Longrightarrow> zoom s \<le> zoom (last ss)"
  by (induction ss) (auto simp: less_imp_le)

lemma ascending_nth_le:
  "sorted_wrt (\<lambda>x y. zoom x < zoom y) ss \<Longrightarrow> i \<le> j \<Longrightarrow> j < length ss \<Longrightarrow> zoom (ss ! i) \<le> zoom (ss ! j)"
  using sorted_wrt_nth_less [of "\<lambda>x y. zoom x < zoom y" ss i j] by (cases "i = j") auto

lemma ascending_nth_less:
  "sorted_wrt (\<lambda>x y. zoom x < zoom y) ss \<Longrightarrow> i < j \<Longrightarrow> j < length ss \<Longrightarrow> zoom (ss ! i) < zoom (ss ! j)"
  using sorted_wrt_nth_less [of "\<lambda>x y. zoom x < zoom y" ss i j] by auto

lemma valueForZoom_loop_bracket:
  "sorted_wrt (\<lambda>x y. zoom x < zoom y) (sa # rest) \<Longrightarrow> Suc i < length (sa # rest) \<Longrightarrow>
   zoom ((sa # rest) ! i) \<le> z \<Longrightarrow> z < zoom ((sa # rest) ! Suc i) \<Longrightarrow>
   valueForZoom_loop bs z sa sb rest =
     stop_ratio bs z ((sa # rest) ! i) ((sa # rest) ! Suc i)
       * (val ((sa # rest) ! Suc i) - val ((sa # rest) ! i)) + val ((sa # rest) ! i)"
proof (induction rest arbitrary: sa sb i)
  case Nil
  then show ?case by simp
next
  case (Cons s rest)
  show ?case
  proof (cases i)
    case 0
    with Cons.prems show ?thesis by simp
  next
    case (Suc j)
    from Cons.prems Suc have "zoom s \<le> zoom ((s # rest) ! j)"
      using ascending_nth_le [of "s # rest" 0 j] by simp
    with Cons.prems Suc have nb: "\<not> z < zoom s" by simp
    from Cons.prems Suc have "valueForZoom_loop bs z s (Some s) rest =
     stop_ratio bs z ((s # rest) ! j) ((s # rest) ! Suc j)
       * (val ((s # rest) ! Suc j) - val ((s # rest) ! j)) + val ((s # rest) ! j)"
      by (intro Cons.IH) auto
    with nb Suc show ?thesis by simp
  qed
qed

lemma valueForZoom_loop_beyond:
  "\<forall>s \<in> set rest. zoom s \<le> z \<Longrightarrow>
   valueForZoom_loop bs z sa sb rest =
     (if rest = [] then (case sb of Some s \<Rightarrow> val s | None \<Rightarrow> 0) else val (last rest))"
  by (induction rest arbitrary: sa sb) auto

text \<open>
  C1. For a stop function with base 1 and at least two stops in ascending zoom order
  (each zoom below the next), \<open>valueForZoom\<close> returns the value of the first stop at or below its zoom, the value
  of the last stop at or beyond its zoom, and for a pair of neighbours \<open>a\<close>, \<open>b\<close>
  with \<open>zoom a \<le> z < zoom b\<close> the linear interpolation
  \<open>val a + ((z - zoom a) / (zoom b - zoom a)) * (val b - val a)\<close>.
\<close>

theorem valueForZoom_linear:
  assumes b1: "base f = 1" and asc: "ascending (stops f)" and two: "2 \<le> length (stops f)"
  shows "(z \<le> zoom (hd (stops f)) \<longrightarrow> valueForZoom f z = Some (val (hd (stops f))))
     \<and> (zoom (last (stops f)) \<le> z \<longrightarrow> valueForZoom f z = Some (val (last (stops f))))
     \<and> (\<forall>i. Suc i < length (stops f) \<and> zoom (stops f ! i) \<le> z \<and> z < zoom (stops f ! Suc i)
          \<longrightarrow> valueForZoom f z =
               Some (val (stops f ! i)
                 + ((z - zoom (stops f ! i)) / (zoom (stops f ! Suc i) - zoom (stops f ! i)))
                   * (val (stops f ! Suc i) - val (stops f ! i))))"
proof -
  from two obtain s0 s1 rest where ss: "stops f = s0 # s1 # rest"
    by (cases "stops f"; cases "tl (stops f)") auto
  from asc ss have sw: "sorted_wrt (\<lambda>x y. zoom x < zoom y) (s0 # s1 # rest)"
    by (simp add: ascending_def)
  have first: "z \<le> zoom (hd (stops f)) \<longrightarrow> valueForZoom f z = Some (val (hd (stops f)))"
    by (simp add: valueForZoom_def ss)
  have lastc: "zoom (last (stops f)) \<le> z \<longrightarrow> valueForZoom f z = Some (val (last (stops f)))"
  proof
    assume le: "zoom (last (stops f)) \<le> z"
    have all: "\<forall>s \<in> set (s1 # rest). zoom s \<le> z"
    proof
      fix s assume "s \<in> set (s1 # rest)"
      then have "s \<in> set (s0 # s1 # rest)" by simp
      from ascending_le_last [OF sw this] le ss show "zoom s \<le> z" by simp
    qed
    from sw have "zoom s0 < zoom s1" by simp
    with all have "\<not> z \<le> zoom s0" by auto
    with valueForZoom_loop_beyond [OF all, of "base f" s0 None] show "valueForZoom f z = Some (val (last (stops f)))"
      by (simp add: valueForZoom_def ss)
  qed
  have mid: "\<forall>i. Suc i < length (stops f) \<and> zoom (stops f ! i) \<le> z \<and> z < zoom (stops f ! Suc i)
          \<longrightarrow> valueForZoom f z =
               Some (val (stops f ! i)
                 + ((z - zoom (stops f ! i)) / (zoom (stops f ! Suc i) - zoom (stops f ! i)))
                   * (val (stops f ! Suc i) - val (stops f ! i)))"
  proof (intro allI impI, elim conjE)
    fix i
    assume i: "Suc i < length (stops f)" and lo: "zoom (stops f ! i) \<le> z"
      and hi: "z < zoom (stops f ! Suc i)"
    from i lo hi ss have loop: "valueForZoom_loop (base f) z s0 None (s1 # rest) =
        stop_ratio (base f) z (stops f ! i) (stops f ! Suc i)
          * (val (stops f ! Suc i) - val (stops f ! i)) + val (stops f ! i)"
      using valueForZoom_loop_bracket [OF sw, of i z "base f" None] by simp
    show "valueForZoom f z =
               Some (val (stops f ! i)
                 + ((z - zoom (stops f ! i)) / (zoom (stops f ! Suc i) - zoom (stops f ! i)))
                   * (val (stops f ! Suc i) - val (stops f ! i)))"
    proof (cases "z \<le> zoom s0")
      case True
      have "zoom s0 \<le> zoom (stops f ! i)"
        using ascending_nth_le [OF sw, of 0 i] i ss by simp
      with True lo have zi: "zoom (stops f ! i) = z" "zoom s0 = z" by auto
      have "i = 0"
      proof (rule ccontr)
        assume "i \<noteq> 0"
        then obtain j where "i = Suc j" by (cases i) auto
        with i ss have "zoom s0 < zoom (stops f ! i)"
          using ascending_nth_less [OF sw, of 0 i] by simp
        with zi show False by simp
      qed
      with True zi ss show ?thesis by (simp add: valueForZoom_def)
    next
      case False
      with loop b1 show ?thesis
        by (simp add: valueForZoom_def ss stop_ratio_def del: valueForZoom_loop.simps)
    qed
  qed
  from first lastc mid show ?thesis by blast
qed

text \<open>
  The stops \<open>[(0, 0), (10, 100)]\<close>: 50 at zoom 5, 0 at zoom -5 and 100 at zoom 20.
\<close>

theorem valueForZoom_linear_witness:
  "valueForZoom example_stops 5 = Some 50 \<and> valueForZoom example_stops (- 5) = Some 0
     \<and> valueForZoom example_stops 20 = Some 100"
proof -
  have h: "base example_stops = 1" "ascending (stops example_stops)"
      "2 \<le> length (stops example_stops)"
    by (simp_all add: example_stops_def ascending_def MaplyVectorFunctionStop_new_def)
  have low: "valueForZoom example_stops (- 5) = Some 0"
    using valueForZoom_linear [OF h, of "- 5"]
    by (simp add: example_stops_def MaplyVectorFunctionStop_new_def)
  have high: "valueForZoom example_stops 20 = Some 100"
    using valueForZoom_linear [OF h, of 20]
    by (simp add: example_stops_def MaplyVectorFunctionStop_new_def)
  have "Suc 0 < length (stops example_stops) \<and> zoom (stops example_stops ! 0) \<le> 5
      \<and> 5 < zoom (stops example_stops ! Suc 0)"
    by (simp add: example_stops_def MaplyVectorFunctionStop_new_def)
  with valueForZoom_linear [OF h, of 5]
  have "valueForZoom example_stops 5 =
      Some (val (stops example_stops ! 0)
        + ((5 - zoom (stops example_stops ! 0))
            / (zoom (stops example_stops ! Suc 0) - zoom (stops example_stops ! 0)))
          * (val (stops example_stops ! Suc 0) - val (stops example_stops ! 0)))"
    by blast
  then have "valueForZoom example_stops 5 = Some 50"
    by (simp add: example_stops_def MaplyVectorFunctionStop_new_def)
  with low high show ?thesis by simp
qed

lemma textForZoom_loop_bracket:
  "sorted_wrt (\<lambda>x y. zoom x < zoom y) (sa # rest) \<Longrightarrow> Suc i < length (sa # rest) \<Longrightarrow>
   zoom ((sa # rest) ! i) \<le> z \<Longrightarrow> z < zoom ((sa # rest) ! Suc i) \<Longrightarrow>
   textForZoom_loop z sa sb rest = textField ((sa # rest) ! i)"
proof (induction rest arbitrary: sa sb i)
  case Nil
  then show ?case by simp
next
  case (Cons s rest)
  show ?case
  proof (cases i)
    case 0
    with Cons.prems show ?thesis by simp
  next
    case (Suc j)
    from Cons.prems Suc have "zoom s \<le> zoom ((s # rest) ! j)"
      using ascending_nth_le [of "s # rest" 0 j] by simp
    with Cons.prems Suc have nb: "\<not> z < zoom s" by simp
    from Cons.prems Suc have "textForZoom_loop z s (Some s) rest = textField ((s # rest) ! j)"
      by (intro Cons.IH) auto
    with nb Suc show ?thesis by simp
  qed
qed

lemma textForZoom_loop_beyond:
  "\<forall>s \<in> set rest. zoom s \<le> z \<Longrightarrow>
   textForZoom_loop z sa sb rest =
     (if rest = [] then (case sb of Some s \<Rightarrow> textField s | None \<Rightarrow> MapboxRegexField_new)
      else textField (last rest))"
  by (induction rest arbitrary: sa sb) auto


lemma textForZoom_loop_is_stop:
  "rest \<noteq> [] \<or> sb \<noteq> None \<Longrightarrow>
   textForZoom_loop z sa sb rest \<in> textField ` (set (sa # rest) \<union> set_option sb)"
proof (induction rest arbitrary: sa sb)
  case Nil
  then show ?case by auto
next
  case (Cons s rest)
  have "textForZoom_loop z s (Some s) rest \<in> textField ` (set (s # rest) \<union> set_option (Some s))"
    by (rule Cons.IH) simp
  then show ?case by auto
qed

lemma textForZoom_is_stop:
  assumes "2 \<le> length (stops f)"
  shows "\<exists>s \<in> set (stops f). textForZoom f z = Some (textField s)"
proof -
  from assms obtain s0 s1 rest where ss: "stops f = s0 # s1 # rest"
    by (cases "stops f"; cases "tl (stops f)") auto
  have "textForZoom_loop z s0 None (s1 # rest) \<in> textField ` (set (s0 # s1 # rest) \<union> set_option None)"
    by (rule textForZoom_loop_is_stop) simp
  then obtain s where "s \<in> set (s0 # s1 # rest)" "textForZoom_loop z s0 None (s1 # rest) = textField s"
    by auto
  then show ?thesis
    by (cases "z \<le> zoom s0") (auto simp: textForZoom_def ss simp del: textForZoom_loop.simps)
qed

text \<open>
  C2. For a stop function over text templates with at least two stops in ascending zoom
  order (each zoom below the next), \<open>textForZoom\<close> does not interpolate: it returns the template of the first stop at
  or below its zoom, the template of the lower stop \<open>a\<close> of a neighbouring pair with
  \<open>zoom a \<le> z < zoom b\<close>, and the template of the last stop at or beyond its zoom; at
  every zoom the result is the template of one of the stops.
\<close>

theorem textForZoom_steps:
  assumes asc: "ascending (stops f)" and two: "2 \<le> length (stops f)"
  shows "(z \<le> zoom (hd (stops f)) \<longrightarrow> textForZoom f z = Some (textField (hd (stops f))))
     \<and> (zoom (last (stops f)) \<le> z \<longrightarrow> textForZoom f z = Some (textField (last (stops f))))
     \<and> (\<forall>i. Suc i < length (stops f) \<and> zoom (stops f ! i) \<le> z \<and> z < zoom (stops f ! Suc i)
          \<longrightarrow> textForZoom f z = Some (textField (stops f ! i)))
     \<and> (\<exists>s \<in> set (stops f). textForZoom f z = Some (textField s))"
proof -
  from two obtain s0 s1 rest where ss: "stops f = s0 # s1 # rest"
    by (cases "stops f"; cases "tl (stops f)") auto
  from asc ss have sw: "sorted_wrt (\<lambda>x y. zoom x < zoom y) (s0 # s1 # rest)"
    by (simp add: ascending_def)
  have first: "z \<le> zoom (hd (stops f)) \<longrightarrow> textForZoom f z = Some (textField (hd (stops f)))"
    by (simp add: textForZoom_def ss)
  have lastc: "zoom (last (stops f)) \<le> z \<longrightarrow> textForZoom f z = Some (textField (last (stops f)))"
  proof
    assume le: "zoom (last (stops f)) \<le> z"
    have all: "\<forall>s \<in> set (s1 # rest). zoom s \<le> z"
    proof
      fix s assume "s \<in> set (s1 # rest)"
      then have "s \<in> set (s0 # s1 # rest)" by simp
      from ascending_le_last [OF sw this] le ss show "zoom s \<le> z" by simp
    qed
    from sw have "zoom s0 < zoom s1" by simp
    with all have "\<not> z \<le> zoom s0" by auto
    with textForZoom_loop_beyond [OF all, of s0 None]
    show "textForZoom f z = Some (textField (last (stops f)))"
      by (simp add: textForZoom_def ss)
  qed
  have mid: "\<forall>i. Suc i < length (stops f) \<and> zoom (stops f ! i) \<le> z \<and> z < zoom (stops f ! Suc i)
          \<longrightarrow> textForZoom f z = Some (textField (stops f ! i))"
  proof (intro allI impI, elim conjE)
    fix i
    assume i: "Suc i < length (stops f)" and lo: "zoom (stops f ! i) \<le> z"
      and hi: "z < zoom (stops f ! Suc i)"
    from i lo hi ss have loop: "textForZoom_loop z s0 None (s1 # rest) = textField (stops f ! i)"
      using textForZoom_loop_bracket [OF sw, of i z None] by simp
    show "textForZoom f z = Some (textField (stops f ! i))"
    proof (cases "z \<le> zoom s0")
      case True
      have "zoom s0 \<le> zoom (stops f ! i)"
        using ascending_nth_le [OF sw, of 0 i] i ss by simp
      with True lo have zi: "zoom (stops f ! i) = z" "zoom s0 = z" by auto
      have "i = 0"
      proof (rule ccontr)
        assume "i \<noteq> 0"
        then obtain j where "i = Suc j" by (cases i) auto
        with i ss have "zoom s0 < zoom (stops f ! i)"
          using ascending_nth_less [OF sw, of 0 i] by simp
        with zi show False by simp
      qed
      with True zi ss show ?thesis by (simp add: textForZoom_def)
    next
      case False
      with loop show ?thesis
        by (simp add: textForZoom_def ss del: textForZoom_loop.simps)
    qed
  qed
  from first lastc mid textForZoom_is_stop [OF two, of z] show ?thesis by blast
qed

lemma example_text_stops_eq:
  "example_text_stops =
     \<lparr>base = 1,
      stops = [MaplyVectorFunctionStop_new\<lparr>zoom := 0,
                 textField := \<lparr>chunks = [\<lparr>str = ''low'', keys = []\<rparr>], valid = True\<rparr>\<rparr>,
               MaplyVectorFunctionStop_new\<lparr>zoom := 10,
                 textField := \<lparr>chunks = [\<lparr>str = ''high'', keys = []\<rparr>], valid = True\<rparr>\<rparr>]\<rparr>"
  by (simp add: example_text_stops_def example_text_dict_def MaplyVectorFunctionStops_parse_def
        MaplyVectorFunctionStops_new_def dict_getDouble_def dict_getArray_def getEntry_def
        parse_stop_def entry_getDouble_def MaplyVectorFunctionStop_new_def
        MapboxRegexField_parse_def MapboxRegexField_new_def field_tokens_def fieldSeparator_def
        text_chunk_def)

text \<open>
  The text stops \<open>[(0, low), (10, high)]\<close> give the template that builds \<^verbatim>\<open>low\<close> at zoom 5
  and the one that builds \<^verbatim>\<open>high\<close> at zoom 15.
\<close>

theorem textForZoom_steps_witness:
  "map_option (\<lambda>t. build t Map.empty) (textForZoom example_text_stops 5) = Some ''low''
   \<and> map_option (\<lambda>t. build t Map.empty) (textForZoom example_text_stops 15) = Some ''high''"
proof -
  have h: "ascending (stops example_text_stops)" "2 \<le> length (stops example_text_stops)"
    by (simp_all add: example_text_stops_eq ascending_def MaplyVectorFunctionStop_new_def)
  note inst5 = textForZoom_steps [OF h, of 5]
  note inst15 = textForZoom_steps [OF h, of 15]
  have "Suc 0 < length (stops example_text_stops) \<and> zoom (stops example_text_stops ! 0) \<le> 5
      \<and> 5 < zoom (stops example_text_stops ! Suc 0)"
    by (simp add: example_text_stops_eq MaplyVectorFunctionStop_new_def)
  with inst5 have "textForZoom example_text_stops 5 = Some (textField (stops example_text_stops ! 0))"
    by blast
  then have low: "map_option (\<lambda>t. build t Map.empty) (textForZoom example_text_stops 5) = Some ''low''"
    by (simp add: example_text_stops_eq MaplyVectorFunctionStop_new_def build_def trim_def isspace_def)
  have "zoom (last (stops example_text_stops)) \<le> 15"
    by (simp add: example_text_stops_eq MaplyVectorFunctionStop_new_def)
  with inst15 have "textForZoom example_text_stops 15 = Some (textField (last (stops example_text_stops)))"
    by blast
  then have "map_option (\<lambda>t. build t Map.empty) (textForZoom example_text_stops 15) = Some ''high''"
    by (simp add: example_text_stops_eq MaplyVectorFunctionStop_new_def build_def trim_def isspace_def)
  with low show ?thesis by blast
qed

subsection \<open>Text templates\<close>

lemma build_keys_spec:
  "build_keys attrs ks (acc, fnd, did) =
     (acc @ (case find (\<lambda>k. lookup_value attrs k \<noteq> []) ks of
                None \<Rightarrow> [] | Some k \<Rightarrow> lookup_value attrs k),
      fnd \<or> (\<exists>k \<in> set ks. attrs k \<noteq> None),
      did \<or> ks \<noteq> [])"
  by (induction ks arbitrary: acc fnd did)
     (auto simp: lookup_value_def split: option.splits)

lemma build_chunks_spec:
  "build_chunks attrs cs (acc, fnd, did) =
     (acc @ concat (map (spec_chunk_text attrs) cs),
      fnd \<or> (\<exists>chunk \<in> set cs. str chunk = [] \<and> (\<exists>k \<in> set (keys chunk). attrs k \<noteq> None)),
      did \<or> (\<exists>chunk \<in> set cs. str chunk = [] \<and> keys chunk \<noteq> []))"
proof (induction cs arbitrary: acc fnd did)
  case Nil
  then show ?case by simp
next
  case (Cons c cs)
  show ?case
  proof (cases "str c = []")
    case True
    then show ?thesis
      by (simp add: build_keys_spec Cons.IH spec_chunk_text_def)
  next
    case False
    then show ?thesis
      by (simp add: Cons.IH spec_chunk_text_def)
  qed
qed

lemma trim_is_spec_trim: "trim s = spec_trim s"
proof (cases "\<exists>c \<in> set (rev (dropWhile isspace (rev s))). \<not> isspace c")
  case True
  then show ?thesis by (simp add: trim_def spec_trim_def)
next
  case False
  have e: "dropWhile isspace (rev s) = []"
  proof (rule ccontr)
    assume ne: "dropWhile isspace (rev s) \<noteq> []"
    then have "\<not> isspace (hd (dropWhile isspace (rev s)))" by (rule hd_dropWhile)
    moreover from ne have "hd (dropWhile isspace (rev s)) \<in> set (dropWhile isspace (rev s))"
      by simp
    ultimately show False using False by auto
  qed
  show ?thesis unfolding trim_def spec_trim_def trim_right.simps trim_left.simps e by simp
qed

text \<open>
  C4. For every template and attribute dictionary, \<open>build\<close> is what the specification
  describes: literal chunks verbatim, for each key chunk the value of the first key
  whose value is not empty, the empty string when a lookup was attempted and no key of
  any key chunk is a field of the attributes, and otherwise the text trimmed.
\<close>

theorem build_meets_spec: "build f attrs = spec_build f attrs"
  unfolding build_def spec_build_def build_chunks_spec spec_lookup_attempted_def
    spec_lookup_succeeded_def trim_is_spec_trim
  by simp

lemma example_template_chunks:
  "example_template = \<lparr>chunks = [\<lparr>str = [], keys = [''name'']\<rparr>], valid = True\<rparr>"
  by (simp add: example_template_def MapboxRegexField_parse_def MapboxRegexField_new_def
        field_tokens_def fieldSeparator_def text_chunk_def colon_search_def colon_match_here_def)

text \<open>
  The template \<^verbatim>\<open>{name}\<close> builds \<^verbatim>\<open>Paris\<close> from \<open>{name: Paris}\<close> and the empty string from
  attributes without \<open>name\<close>.
\<close>

theorem build_meets_spec_witness:
  "build example_template [''name'' \<mapsto> ''Paris''] = ''Paris''
   \<and> build example_template Map.empty = ''''"
proof -
  have "spec_build example_template [''name'' \<mapsto> ''Paris''] = ''Paris''"
    by (simp add: spec_build_def spec_lookup_attempted_def spec_lookup_succeeded_def
          spec_chunk_text_def lookup_value_def example_template_chunks spec_trim_def isspace_def)
  moreover have "spec_build example_template Map.empty = ''''"
    by (simp add: spec_build_def spec_lookup_attempted_def spec_lookup_succeeded_def
          example_template_chunks)
  ultimately show ?thesis
    using build_meets_spec [of example_template "[''name'' \<mapsto> ''Paris'']"]
      build_meets_spec [of example_template Map.empty] by simp
qed

text \<open>
  A field that is present with an empty value counts as a lookup that succeeded: the
  literal part of the template is still returned.
\<close>

lemma build_empty_value_field:
  "build (snd (MapboxRegexField_parse MapboxRegexField_new ''Hi {name}'')) [''name'' \<mapsto> ''''] = ''Hi''"
  by (simp add: build_def MapboxRegexField_parse_def MapboxRegexField_new_def
        field_tokens_def fieldSeparator_def text_chunk_def colon_search_def colon_match_here_def
        trim_def isspace_def)








subsection \<open>Colors\<close>

lemma DBL_MAX_ge: "2 ^ 20 \<le> DBL_MAX"
proof -
  have "(2::real) ^ 20 \<le> 2 ^ 971" by (rule power_increasing) simp_all
  also have "\<dots> = 1 * 2 ^ 971" by simp
  also have "\<dots> \<le> (2 ^ 53 - 1) * 2 ^ 971"
    by (rule mult_right_mono) simp_all
  finally show ?thesis by (simp only: DBL_MAX_def)
qed

lemma DBL_MIN_le: "DBL_MIN \<le> 1 / 2 ^ 20"
proof -
  have "(2::real) ^ 20 \<le> 2 ^ 1022" by (rule power_increasing) simp_all
  then have "1 / (2::real) ^ 1022 \<le> 1 / 2 ^ 20"
    by (intro divide_left_mono) (simp_all del: power_numeral)
  then show ?thesis by (simp only: DBL_MIN_def)
qed

lemma stod_range_ok:
  "1 / 2 ^ 20 \<le> v \<Longrightarrow> v \<le> 2 ^ 20 \<Longrightarrow> \<not> stod_range_error v"
  unfolding stod_range_error_def using DBL_MAX_ge DBL_MIN_le by linarith

lemmas number_defs = stoi_def stod_def stod_special_def stod_exponent_def split_sign_def
  isspace_def is_digit_def digit_val_def digits_value_def xdigit_value_def hex_val_def
































lemma starts_with_append: "starts_with p s \<Longrightarrow> s = p @ drop (length p) s"
  unfolding starts_with_def by (metis append_take_drop_id)

lemma color_tokens_rgba_example: "color_tokens ''1,2,3,0.5)'' = [''1'', ''2'', ''3'', ''0.5'']"
  by (simp add: color_tokens_def colorSeparator_def)

text \<open>
  C7, as the code has it. For a string \<^verbatim>\<open>rgba(r,g,b,a)\<close> whose four tokens are read as the
  integers \<open>rr\<close>, \<open>gg\<close>, \<open>bb\<close> and the fraction \<open>al\<close> in \<open>[0, 1]\<close>, \<open>parseColor\<close> without
  \<open>multiplyAlpha\<close> returns the three integers as red, green and blue, and the alpha channel
  is \<open>255 * al\<close> truncated (\<^verbatim>\<open>(int) (255.0 * alpha)\<close>), not rounded.
\<close>

theorem parseColor_rgba_alpha_truncated:
  assumes pre: "starts_with ''rgba('' s"
    and toks: "color_tokens (drop 5 s) = [t1, t2, t3, t4]"
    and nums: "stoi t1 = Inr rr" "stoi t2 = Inr gg" "stoi t3 = Inr bb" "stod t4 = Inr al"
    and unit: "0 \<le> al" "al \<le> 1"
  shows "parseColor ops s defVal False
           = Inr (Some \<lparr>chan_r = word_of_int rr, chan_g = word_of_int gg, chan_b = word_of_int bb,
                         chan_a = word_of_int \<lfloor>255 * al\<rfloor>\<rparr>)
     \<and> unat (word_of_int \<lfloor>255 * al\<rfloor> :: 8 word) = nat \<lfloor>255 * al\<rfloor>"
proof -
  from starts_with_append [OF pre] obtain rest where s: "s = ''rgba('' @ rest" by simp
  have shape: "s \<noteq> []" "hd s \<noteq> CHR ''#''" "\<not> starts_with ''rgb('' s"
    by (simp_all add: s starts_with_def)
  have "parseColor ops s defVal False
      = Inr (Some (RGBAColor_ints rr gg bb (int_of_double (255 * al))))"
    using pre by (simp add: parseColor_def shape toks stoi3_stod_def stoi3_def nums)
  moreover have "int_of_double (255 * al) = \<lfloor>255 * al\<rfloor>"
    using unit by (simp add: int_of_double_def)
  moreover have "unat (word_of_int \<lfloor>255 * al\<rfloor> :: 8 word) = nat \<lfloor>255 * al\<rfloor>"
  proof -
    have "0 \<le> \<lfloor>255 * al\<rfloor>" using unit by simp
    moreover have "\<lfloor>255 * al\<rfloor> \<le> 255" using unit by (simp add: floor_le_iff)
    ultimately show ?thesis
      by (simp add: unat_eq_nat_uint uint_word_of_int take_bit_int_eq_self)
  qed
  ultimately show ?thesis by (simp add: RGBAColor_ints_def RGBAColor_bytes_def)
qed

text \<open>\<^verbatim>\<open>rgba(1,2,3,0.5)\<close> is the color \<open>(1, 2, 3, 127)\<close>, as the unit test of the file expects.\<close>

theorem parseColor_rgba_alpha_truncated_witness:
  "parseColor example_ops ''rgba(1,2,3,0.5)'' None False
     = Inr (Some \<lparr>chan_r = 1, chan_g = 2, chan_b = 3, chan_a = 127\<rparr>)"
proof -
  have n: "stoi ''1'' = Inr 1" "stoi ''2'' = Inr 2" "stoi ''3'' = Inr 3" "stod ''0.5'' = Inr (1 / 2)"
    by (simp_all add: number_defs stod_range_ok)
  have p: "starts_with ''rgba('' ''rgba(1,2,3,0.5)''" by (simp add: starts_with_def)
  have t: "color_tokens (drop 5 ''rgba(1,2,3,0.5)'') = [''1'', ''2'', ''3'', ''0.5'']"
    by (simp add: color_tokens_def colorSeparator_def)
  have u: "(0::real) \<le> 1 / 2" "(1::real) / 2 \<le> 1" by simp_all
  have f: "\<lfloor>255 * (1 / 2 :: real)\<rfloor> = 127" by (simp add: floor_eq_iff)
  from parseColor_rgba_alpha_truncated [OF p t n u, of example_ops None]
  show ?thesis by (simp add: f)
qed

text \<open>
  C7 as stated fails: the alpha channel of \<^verbatim>\<open>rgba(1,2,3,0.5)\<close> is 127, not
  \<open>round (0.5 * 255) = 128\<close>.
\<close>

theorem parseColor_rgba_alpha_counterexample:
  "parseColor example_ops ''rgba(1,2,3,0.5)'' None False
     = Inr (Some \<lparr>chan_r = 1, chan_g = 2, chan_b = 3, chan_a = 127\<rparr>)
   \<and> parseColor example_ops ''rgba(1,2,3,0.5)'' None False
     \<noteq> Inr (Some \<lparr>chan_r = 1, chan_g = 2, chan_b = 3, chan_a = 128\<rparr>)"
proof -
  have f: "\<lfloor>255 / 2 :: real\<rfloor> = 127" by (simp add: floor_eq_iff)
  have "parseColor example_ops ''rgba(1,2,3,0.5)'' None False
     = Inr (Some \<lparr>chan_r = 1, chan_g = 2, chan_b = 3, chan_a = 127\<rparr>)"
    by (simp add: parseColor_def starts_with_def color_tokens_def colorSeparator_def
        stoi3_stod_def stoi3_def number_defs stod_range_ok int_of_double_def f
        RGBAColor_ints_def RGBAColor_bytes_def)
  then show ?thesis by simp
qed

text \<open>
  C6 fails on the code: a recognized prefix with a component that is no number makes
  \<^verbatim>\<open>std::stoi\<close> or \<^verbatim>\<open>std::stod\<close> throw, and the exception leaves \<open>parseColor\<close> instead of the
  default value being returned.
\<close>

theorem parseColor_malformed_throws:
  "parseColor ops ''rgb(a,b,c)'' defVal m = Inl invalid_argument
   \<and> parseColor ops ''rgba(1,2,3,x)'' defVal m = Inl invalid_argument
   \<and> parseColor ops ''rgb(1,2,99999999999)'' defVal m = Inl out_of_range"
  by (simp add: parseColor_def starts_with_def color_tokens_def colorSeparator_def
        stoi3_stod_def stoi3_def number_defs)

text \<open>
  Other malformed strings are accepted as colors instead: \<^verbatim>\<open>strtoul\<close> reads the \<^verbatim>\<open>0x\<close> of
  \<^verbatim>\<open>#0x1\<close>, and the closing parenthesis of \<^verbatim>\<open>rgb(1,2,3\<close> is not required.
\<close>

lemma parseColor_accepts_malformed:
  "parseColor ops ''#0x1'' None False
      = Inr (Some \<lparr>chan_r = 0, chan_g = 0, chan_b = 0x11, chan_a = 255\<rparr>)"
    "parseColor ops ''rgb(1,2,3'' None m
      = Inr (Some \<lparr>chan_r = 1, chan_g = 2, chan_b = 3, chan_a = 255\<rparr>)"
  by (simp_all add: parseColor_def parseColor_hex_def strtoul_hex_def starts_with_def color_tokens_def colorSeparator_def
        stoi3_def number_defs is_xdigit_def hex_result_def hex_nibble_def RGBAColor_ints_def RGBAColor_bytes_def)

subsection \<open>Property values\<close>

text \<open>
  C5 fails on the code for \<open>transDouble\<close>. For a dictionary entry whose \<^verbatim>\<open>stops\<close> array is
  missing, the parse of the stop function fails, and \<open>transDouble\<close> still returns a value
  backed by the stop function of the failed parse, here one with no stop at all, whose
  evaluation reads outside the vector; when the parse fails at a later stop, the stops
  pushed before it are kept. \<open>transColor\<close> returns null for the same entry.
\<close>

theorem transDouble_keeps_failed_stops:
  "transDouble ops (Some (DictDictionary [])) defVal
     = Inr (Some \<lparr>td_val = 0, td_stops = Some \<lparr>base = 1, stops = []\<rparr>\<rparr>)
   \<and> transDouble ops (Some (DictDictionary
         [(''stops'', DictArray [DictArray [DictInt 0, DictInt 1], DictArray [DictInt 5]])])) defVal
     = Inr (Some \<lparr>td_val = 0, td_stops = Some \<lparr>base = 1,
          stops = [MaplyVectorFunctionStop_new\<lparr>zoom := 0, val := 1\<rparr>]\<rparr>\<rparr>)
   \<and> MaplyVectorFunctionStops_parse ops MaplyVectorFunctionStops_new [] False
     = Inr (False, \<lparr>base = 1, stops = []\<rparr>)
   \<and> valForZoom \<lparr>td_val = 0, td_stops = Some \<lparr>base = 1, stops = []\<rparr>\<rparr> z = None
   \<and> transColor ops nm (Some [(nm, DictDictionary [])]) dv = Inr None"
  by (simp add: transDouble_def transColor_def MaplyVectorFunctionStops_parse_def
        MaplyVectorFunctionStops_new_def dict_getDouble_def dict_getArray_def getEntry_def
        parse_stop_def entry_getDouble_def MapboxTransDouble_stops_def valForZoom_def
        valueForZoom_def)

subsection \<open>The style set\<close>









lemma parse_layers_append:
  "parse_layers place mk st (es1 @ es2)
     = (case parse_layers place mk st es1 of
          Inl x \<Rightarrow> Inl x
        | Inr st1 \<Rightarrow> parse_layers place mk st1 es2)"
  by (induction es1 arbitrary: st) (auto split: sum.splits)

lemma parse_layers_exception:
  assumes "parse_layers place mk st pre = Inr st1" "parse_layer place mk st1 e = Inl x"
  shows "parse_layers place mk st (pre @ e # post) = Inl x"
  using assms by (simp add: parse_layers_append)

lemma parse_layer_total:
  assumes "\<forall>s d p. \<exists>r. mk s d p = Inr r"
  shows "\<exists>st'. parse_layer place mk st e = Inr st'"
proof (cases st)
  case (Pair s which)
  show ?thesis
  proof (cases e)
    case (DictDictionary d)
    from assms obtain r where "mk s d (1 * which + baseDrawPriority s) = Inr r" by blast
    with Pair DictDictionary show ?thesis
      by (cases r) (auto simp: parse_layer_def Let_def split: option.splits)
  qed (simp_all add: parse_layer_def Pair)
qed

lemma parse_layers_total:
  assumes "\<forall>s d p. \<exists>r. mk s d p = Inr r"
  shows "\<exists>st'. parse_layers place mk st es = Inr st'"
proof (induction es arbitrary: st)
  case Nil
  show ?case by simp
next
  case (Cons e es)
  from parse_layer_total [OF assms] obtain st1 where "parse_layer place mk st e = Inr st1"
    by blast
  with Cons.IH [of st1] show ?case by simp
qed






text \<open>
  A constructor that throws on no dictionary never makes \<open>parse\<close> throw: it returns true.
\<close>

lemma parse_total:
  assumes "\<forall>s d p. \<exists>r. mk s d p = Inr r"
  shows "\<exists>s'. MapboxVectorStyleSetImpl_parse place mk s doc = Inr (True, s')"
proof -
  from parse_layers_total [OF assms]
  obtain st where "parse_layers place mk (parse_start s doc, 0) (dict_getArray doc ''layers'')
      = Inr st" by blast
  then show ?thesis by (simp add: MapboxVectorStyleSetImpl_parse_def)
qed

text \<open>The example document, parsed with either placement, and the layers it declares.\<close>

lemmas example_parse_defs = MapboxVectorStyleSetImpl_parse_def parse_layer_def parse_start_def
  MapboxVectorStyleSetImpl_new_def dict_getArray_def dict_getString_def dict_getInt_def
  getEntry_def entry_getDouble_def int_of_double_def example_maker_def example_paint_def
  transColor_def colorValue_def Let_def multimap_insert_def








text \<open>
  C10 fails on the code. The loop of \<open>parse\<close> skips an entry that is no dictionary and a
  dictionary for which the constructor returns null, but it has no handler for an
  exception, and the property resolvers of this file throw on a malformed color (C6). For
  the document whose first layer has the fill color \<^verbatim>\<open>rgb(a,b,c)\<close> the construction of that
  layer fails with the exception of \<open>parseColor\<close>, and the exception leaves \<open>parse\<close>, with
  every placement of the multimap: \<open>parse\<close> does not return true, and the well-formed
  layer \<^verbatim>\<open>road\<close> after the bad one is never processed. Parsed alone, that layer is made
  and listed.
\<close>

theorem parse_aborts_on_exception:
  "example_maker s example_bad_layer prio = Inl invalid_argument
   \<and> MapboxVectorStyleSetImpl_parse place example_maker (MapboxVectorStyleSetImpl_new 100)
       example_bad_document = Inl invalid_argument
   \<and> map_sum id (\<lambda>r. (fst r, map ident (layers (snd r))))
       (MapboxVectorStyleSetImpl_parse place example_maker (MapboxVectorStyleSetImpl_new 100)
          example_rest_document) = Inr (True, [''road''])"
  by (simp add: example_parse_defs example_bad_document_def example_bad_layer_def
        example_rest_document_def example_road_entry_def parseColor_def starts_with_def
        color_tokens_def colorSeparator_def stoi3_def stoi_def split_sign_def isspace_def
        is_digit_def digit_val_def)

end
